theory Spec2Isabelle
  imports Complex_Main
begin

section \<open>Numbers\<close>

text \<open>
  Amounts and means are JavaScript numbers. Finite values are reals. The interval
  arithmetic, the sums of the matcher and the running balances are idealised as exact; the
  amount rule of the automatic detector, whose outcome turns on a rounded comparison, is
  computed in IEEE 754 double arithmetic (see below).
  The automatic detector divides by an array length and by a mean that may both be zero;
  JavaScript does not raise there but yields \<open>NaN\<close> or an infinity, so the result of such a
  division is a \<open>jsnum\<close>, and comparisons with \<open>NaN\<close> are false as in the language.
\<close>

datatype jsnum = Num real | NaN | PosInf | NegInf

definition js_div :: "real \<Rightarrow> real \<Rightarrow> jsnum" where
  "js_div a b =
     (if b \<noteq> 0 then Num (a / b)
      else if a = 0 then NaN
      else if 0 < a then PosInf else NegInf)"

fun js_lt :: "jsnum \<Rightarrow> real \<Rightarrow> bool" where
  "js_lt (Num x) c = (x < c)"
| "js_lt NegInf c = True"
| "js_lt PosInf c = False"
| "js_lt NaN c = False"

fun js_gt :: "jsnum \<Rightarrow> real \<Rightarrow> bool" where
  "js_gt (Num x) c = (c < x)"
| "js_gt PosInf c = True"
| "js_gt NegInf c = False"
| "js_gt NaN c = False"

subsection \<open>Double arithmetic\<close>

text \<open>
  A JavaScript number is an IEEE 754 binary64 value, and \<open>+\<close>, \<open>-\<close>, \<open>*\<close>, \<open>/\<close> return the
  double nearest to the exact result, ties to the even significand. \<open>fl\<close> is that rounding:
  a double is an integer of magnitude at most \<open>2^53\<close> times a power of two whose exponent is
  at least \<open>-1074\<close> (the quantum), and the quantum of \<open>x\<close> is 52 binary places below its
  leading bit. Overflow to an infinity is not modelled: \<open>fl\<close> is the platform's rounding for
  results of magnitude below \<open>2^1024\<close>.
\<close>

function bitLength :: "int \<Rightarrow> int" where
  "bitLength n = (if 0 < n then 1 + bitLength (n div 2) else 0)"
  by pat_completeness auto
termination
  by (relation "measure nat") auto

text \<open>The integer part of the binary logarithm of a positive real.\<close>

definition floorLog2 :: "real \<Rightarrow> int" where
  "floorLog2 y = (if 1 \<le> y then bitLength \<lfloor>y\<rfloor> - 1 else - bitLength (\<lceil>1 / y\<rceil> - 1))"

definition pow2 :: "int \<Rightarrow> real" where
  "pow2 q = (if 0 \<le> q then real_of_int (2 ^ nat q) else 1 / real_of_int (2 ^ nat (- q)))"

definition roundHalfEven :: "real \<Rightarrow> int" where
  "roundHalfEven x =
     (let f = \<lfloor>x\<rfloor>
      in if x - real_of_int f < 1 / 2 then f
         else if 1 / 2 < x - real_of_int f then f + 1
         else if even f then f else f + 1)"

definition fl :: "real \<Rightarrow> real" where
  "fl x =
     (if x = 0 then 0
      else let q = max (- 1074) (floorLog2 \<bar>x\<bar> - 52)
           in sgn x * real_of_int (roundHalfEven (\<bar>x\<bar> / pow2 q)) * pow2 q)"

definition fadd :: "real \<Rightarrow> real \<Rightarrow> real" where
  "fadd a b = fl (a + b)"

definition fsub :: "real \<Rightarrow> real \<Rightarrow> real" where
  "fsub a b = fl (a - b)"

definition fmul :: "real \<Rightarrow> real \<Rightarrow> real" where
  "fmul a b = fl (a * b)"

definition fdiv :: "real \<Rightarrow> real \<Rightarrow> real" where
  "fdiv a b = fl (a / b)"

text \<open>The literal \<open>0.1\<close> denotes the double nearest to one tenth.\<close>

definition tenth :: real where
  "tenth = 3602879701896397 / 36028797018963968"

text \<open>A real is a double when rounding leaves it as it is.\<close>

definition isDouble :: "real \<Rightarrow> bool" where
  "isDouble x = (fl x = x)"

text \<open>\<open>Math.round\<close>: the nearest integer, halves rounded up.\<close>

definition Math_round :: "real \<Rightarrow> int" where
  "Math_round x = \<lfloor>x + 1 / 2\<rfloor>"

text \<open>\<open>Math.max(...xs)\<close> and \<open>Math.min(...xs)\<close> on a non-empty array of finite numbers.\<close>

fun Math_max :: "real list \<Rightarrow> real" where
  "Math_max [] = 0"
| "Math_max [x] = x"
| "Math_max (x # y # ys) = max x (Math_max (y # ys))"

fun Math_min :: "real list \<Rightarrow> real" where
  "Math_min [] = 0"
| "Math_min [x] = x"
| "Math_min (x # y # ys) = min x (Math_min (y # ys))"

section \<open>Strings\<close>

text \<open>Characters are ASCII bytes; \<open>\w\<close> is a letter, a digit or the underscore and
  \<open>\s\<close> is ASCII white space (space, tab, line feed, vertical tab, form feed,
  carriage return).\<close>

definition upperLetters :: string where
  "upperLetters = ''ABCDEFGHIJKLMNOPQRSTUVWXYZ''"

definition lowerLetters :: string where
  "lowerLetters = ''abcdefghijklmnopqrstuvwxyz''"

definition toLowerChar :: "char \<Rightarrow> char" where
  "toLowerChar c = (case map_of (zip upperLetters lowerLetters) c of Some l \<Rightarrow> l | None \<Rightarrow> c)"

definition toLowerCase :: "string \<Rightarrow> string" where
  "toLowerCase s = map toLowerChar s"

definition isDigit :: "char \<Rightarrow> bool" where
  "isDigit c = (c \<in> set ''0123456789'')"

definition isWordChar :: "char \<Rightarrow> bool" where
  "isWordChar c = (c \<in> set upperLetters \<or> c \<in> set lowerLetters \<or> isDigit c \<or> c = CHR ''_'')"

definition isSpaceChar :: "char \<Rightarrow> bool" where
  "isSpaceChar c = (c \<in> set [CHR '' '', CHR 0x09, CHR 0x0A, CHR 0x0B, CHR 0x0C, CHR 0x0D])"

definition trim :: "string \<Rightarrow> string" where
  "trim s = rev (dropWhile isSpaceChar (rev (dropWhile isSpaceChar s)))"

text \<open>\<open>s.includes(p)\<close>: \<open>p\<close> occurs in \<open>s\<close> as a contiguous substring.\<close>

fun includes_str :: "string \<Rightarrow> string \<Rightarrow> bool" where
  "includes_str [] p = (p = [])"
| "includes_str (c # cs) p = (take (length p) (c # cs) = p \<or> includes_str cs p)"

definition normalizeDescription :: "string \<Rightarrow> string" where
  "normalizeDescription description =
     take 30 (trim (filter (\<lambda>c. isWordChar c \<or> isSpaceChar c)
                      (filter (\<lambda>c. \<not> isDigit c) (toLowerCase description))))"

section \<open>Dates\<close>

text \<open>
  A \<open>Date\<close> is its time value: milliseconds since the epoch, read in a time zone of fixed
  offset, so that local midnights are the multiples of \<open>msPerDay\<close>. Date strings of the
  program (\<open>tradeDate\<close>, \<open>lastCharged\<close>) are taken as already parsed; the program assumes
  every date string is a valid ISO date. The calendar functions below are those of the
  platform and of date-fns (proleptic Gregorian calendar), which the program imports.
\<close>

type_synonym timestamp = int

definition msPerDay :: int where
  "msPerDay = 86400000"

text \<open>date-fns \<open>differenceInDays\<close>: the number of full days, truncated towards zero.\<close>

definition differenceInDays :: "timestamp \<Rightarrow> timestamp \<Rightarrow> int" where
  "differenceInDays later earlier =
     (if earlier \<le> later then (later - earlier) div msPerDay
      else - ((earlier - later) div msPerDay))"

definition addDays :: "timestamp \<Rightarrow> int \<Rightarrow> timestamp" where
  "addDays d n = d + n * msPerDay"

definition isBefore :: "timestamp \<Rightarrow> timestamp \<Rightarrow> bool" where
  "isBefore a b = (a < b)"

definition isAfter :: "timestamp \<Rightarrow> timestamp \<Rightarrow> bool" where
  "isAfter a b = (b < a)"

definition dayNumber :: "timestamp \<Rightarrow> int" where
  "dayNumber d = d div msPerDay"

definition timeOfDay :: "timestamp \<Rightarrow> int" where
  "timeOfDay d = d mod msPerDay"

text \<open>Day number (days since 1970-01-01) to year, month (1 to 12) and day of month.\<close>

definition civil_of_days :: "int \<Rightarrow> int \<times> int \<times> int" where
  "civil_of_days n =
     (let z = n + 719468;
          era = z div 146097;
          doe = z - era * 146097;
          yoe = (doe - doe div 1460 + doe div 36524 - doe div 146096) div 365;
          doy = doe - (365 * yoe + yoe div 4 - yoe div 100);
          mp = (5 * doy + 2) div 153;
          d = doy - (153 * mp + 2) div 5 + 1;
          m = (if mp < 10 then mp + 3 else mp - 9);
          y = yoe + era * 400 + (if m \<le> 2 then 1 else 0)
      in (y, m, d))"

definition days_of_civil :: "int \<Rightarrow> int \<Rightarrow> int \<Rightarrow> int" where
  "days_of_civil y m d =
     (let y' = (if m \<le> 2 then y - 1 else y);
          era = y' div 400;
          yoe = y' - era * 400;
          doy = (153 * (if 2 < m then m - 3 else m + 9) + 2) div 5 + d - 1;
          doe = yoe * 365 + yoe div 4 - yoe div 100 + doy
      in era * 146097 + doe - 719468)"

definition isLeapYear :: "int \<Rightarrow> bool" where
  "isLeapYear y = (if y mod 400 = 0 then True else if y mod 100 = 0 then False else y mod 4 = 0)"

definition daysInMonth :: "int \<Rightarrow> int \<Rightarrow> int" where
  "daysInMonth y m =
     (if m = 2 then (if isLeapYear y then 29 else 28)
      else if m = 4 \<or> m = 6 \<or> m = 9 \<or> m = 11 then 30 else 31)"

text \<open>\<open>getDate\<close>: the day of the month.\<close>

definition getDate :: "timestamp \<Rightarrow> int" where
  "getDate d = (case civil_of_days (dayNumber d) of (y, m, dd) \<Rightarrow> dd)"

text \<open>date-fns \<open>lastDayOfMonth\<close>: midnight of the last day of the date's month.\<close>

definition lastDayOfMonth :: "timestamp \<Rightarrow> timestamp" where
  "lastDayOfMonth d =
     (case civil_of_days (dayNumber d) of
        (y, m, dd) \<Rightarrow> days_of_civil y m (daysInMonth y m) * msPerDay)"

text \<open>date-fns \<open>addMonths\<close>: the same day of the month \<open>n\<close> months later, clamped to the
  length of that month; the time of day is kept.\<close>

definition addMonths :: "timestamp \<Rightarrow> int \<Rightarrow> timestamp" where
  "addMonths d n =
     (case civil_of_days (dayNumber d) of
        (y, m, dd) \<Rightarrow>
          (let total = y * 12 + (m - 1) + n;
               y' = total div 12;
               m' = total mod 12 + 1
           in days_of_civil y' m' (min dd (daysInMonth y' m')) * msPerDay + timeOfDay d))"

text \<open>The key \<open>yyyy-mm-dd\<close> of the forecast's event map, kept as the triple it prints.\<close>

type_synonym dateKey = "int \<times> int \<times> int"

definition getDateKey :: "timestamp \<Rightarrow> dateKey" where
  "getDateKey d = civil_of_days (dayNumber d)"

section \<open>Data model\<close>

datatype direction = DEBIT | CREDIT

record Transaction =
  tx_id :: string
  tx_tradeDate :: timestamp
  tx_bookingDate :: timestamp
  tx_valueDate :: timestamp
  tx_description :: string
  tx_amount :: real
  tx_type :: direction
  tx_balance :: real
  tx_category :: string

text \<open>Optional fields are options; a field is used where JavaScript finds it truthy:
  present and not zero, not empty, not false.\<close>

record ManualRecurringRule =
  rule_id :: string
  rule_type :: direction
  rule_descriptionPattern :: string
  rule_category :: "string option"
  rule_dayRangeStart :: "int option"
  rule_dayRangeEnd :: "int option"
  rule_intervalDays :: "int option"
  rule_expectedAmount :: "real option"
  rule_amountTolerance :: "real option"
  rule_useAverage :: bool
  rule_enabled :: bool
  rule_isExclude :: "bool option"
  rule_createdAt :: string
  rule_notes :: "string option"

datatype frequency = weekly | bi_weekly | monthly | quarterly | yearly

record RecurringTransaction =
  rt_description :: string
  rt_category :: string
  rt_amount :: real
  rt_frequency :: frequency
  rt_intervalDays :: int
  rt_lastCharged :: timestamp
  rt_occurrences :: nat
  rt_transactionIds :: "string list"
  rt_isExclude :: "bool option"
  rt_ruleId :: "string option"

fun truthyNum :: "real option \<Rightarrow> bool" where
  "truthyNum None = False"
| "truthyNum (Some x) = (x \<noteq> 0)"

fun truthyInt :: "int option \<Rightarrow> bool" where
  "truthyInt None = False"
| "truthyInt (Some x) = (x \<noteq> 0)"

fun truthyStr :: "string option \<Rightarrow> bool" where
  "truthyStr None = False"
| "truthyStr (Some s) = (s \<noteq> [])"

fun truthyBool :: "bool option \<Rightarrow> bool" where
  "truthyBool None = False"
| "truthyBool (Some b) = b"

section \<open>Frequency bands\<close>

definition determineFrequency :: "real \<Rightarrow> frequency" where
  "determineFrequency avgDays =
     (if avgDays \<le> 9 then weekly
      else if avgDays \<le> 16 then bi_weekly
      else if avgDays \<le> 35 then monthly
      else if avgDays \<le> 100 then quarterly
      else yearly)"

section \<open>Automatic pattern detector\<close>

text \<open>The day gaps between consecutive transactions of a group.\<close>

fun intervalsOf :: "Transaction list \<Rightarrow> int list" where
  "intervalsOf (a # b # ts) =
     differenceInDays (tx_tradeDate b) (tx_tradeDate a) # intervalsOf (b # ts)"
| "intervalsOf [a] = []"
| "intervalsOf [] = []"

definition avgIntervalOf :: "int list \<Rightarrow> jsnum" where
  "avgIntervalOf intervals = js_div (real_of_int (sum_list intervals)) (real (length intervals))"

text \<open>\<open>Math.abs(i - avgInterval) / avgInterval\<close>; with a mean that is not a finite number
  the quotient is \<open>NaN\<close>.\<close>

definition relativeDeviation :: "jsnum \<Rightarrow> int \<Rightarrow> jsnum" where
  "relativeDeviation avgInterval i =
     (case avgInterval of
        Num a \<Rightarrow> js_div \<bar>real_of_int i - a\<bar> a
      | NaN \<Rightarrow> NaN | PosInf \<Rightarrow> NaN | NegInf \<Rightarrow> NaN)"

definition varianceOf :: "jsnum \<Rightarrow> int list \<Rightarrow> jsnum list" where
  "varianceOf avgInterval intervals = map (relativeDeviation avgInterval) intervals"

definition isConsistent :: "jsnum list \<Rightarrow> bool" where
  "isConsistent variance = list_all (\<lambda>v. js_lt v 0.2) variance"

text \<open>The representative amount of a surviving group (lines 96 to 110 of the detector),
  in double arithmetic: \<open>reduce((a, b) => a + b, 0)\<close> adds from the left, rounding each sum;
  the quotient, the difference of maximum and minimum and the product with \<open>0.1\<close> are
  rounded; maximum, minimum and the comparison are exact.\<close>

definition representativeAmount :: "Transaction list \<Rightarrow> real" where
  "representativeAmount txns =
     (let maxOccurrencesForAverage = 12;
          recentTransactions = drop (length txns - maxOccurrencesForAverage) txns;
          amounts = map tx_amount txns;
          recentAmounts = map tx_amount recentTransactions;
          avgAmount = fdiv (foldl fadd 0 recentAmounts) (real (length recentAmounts));
          amountVariance = fsub (Math_max amounts) (Math_min amounts);
          hasVariableAmount = (fmul avgAmount tenth < amountVariance)
      in if hasVariableAmount then avgAmount else tx_amount (last txns))"

text \<open>The body of the loop over the description groups: the entry a group contributes,
  if any. The mean of a group that passes \<open>avgInterval > 0\<close> is a finite number, since
  the divisor of the mean is a length.\<close>

definition analyseGroup :: "timestamp \<Rightarrow> int \<Rightarrow> Transaction list \<Rightarrow> RecurringTransaction option" where
  "analyseGroup now minOccurrences txns =
     (if int (length txns) < minOccurrences then None
      else
        let intervals = intervalsOf txns;
            avgInterval = avgIntervalOf intervals;
            variance = varianceOf avgInterval intervals
        in if isConsistent variance \<and> js_gt avgInterval 0
           then (case avgInterval of
                   Num avg \<Rightarrow>
                     let lastTransaction = last txns;
                         daysSinceLastOccurrence =
                           differenceInDays now (tx_tradeDate lastTransaction);
                         isStale = (avg * 2 < real_of_int daysSinceLastOccurrence)
                     in if isStale then None
                        else Some \<lparr> rt_description = tx_description lastTransaction,
                                    rt_category = tx_category lastTransaction,
                                    rt_amount = representativeAmount txns,
                                    rt_frequency = determineFrequency avg,
                                    rt_intervalDays = Math_round avg,
                                    rt_lastCharged = tx_tradeDate lastTransaction,
                                    rt_occurrences = length txns,
                                    rt_transactionIds = map tx_id txns,
                                    rt_isExclude = None,
                                    rt_ruleId = None \<rparr>
                 | NaN \<Rightarrow> None | PosInf \<Rightarrow> None | NegInf \<Rightarrow> None)
           else None)"

text \<open>The description groups: a map in insertion order, each group in the order of the
  sorted input.\<close>

fun addToGroup :: "string \<Rightarrow> Transaction \<Rightarrow> (string \<times> Transaction list) list
    \<Rightarrow> (string \<times> Transaction list) list" where
  "addToGroup k t [] = [(k, [t])]"
| "addToGroup k t ((k', ts) # gs) =
     (if k = k' then (k', ts @ [t]) # gs else (k', ts) # addToGroup k t gs)"

definition groupByDescription :: "Transaction list \<Rightarrow> (string \<times> Transaction list) list" where
  "groupByDescription sortedTxns =
     foldl (\<lambda>gs t. addToGroup (normalizeDescription (tx_description t)) t gs) [] sortedTxns"

section \<open>Manual rule matcher\<close>

definition dayRangeFails :: "ManualRecurringRule \<Rightarrow> Transaction \<Rightarrow> bool" where
  "dayRangeFails rule t =
     ((truthyInt (rule_dayRangeStart rule) \<or> truthyInt (rule_dayRangeEnd rule))
      \<and> ((case rule_dayRangeStart rule of
             Some s \<Rightarrow> s \<noteq> 0 \<and> getDate (tx_tradeDate t) < s | None \<Rightarrow> False)
         \<or> (case rule_dayRangeEnd rule of
               Some e \<Rightarrow> e \<noteq> 0 \<and> e < getDate (tx_tradeDate t) | None \<Rightarrow> False)))"

definition amountFails :: "ManualRecurringRule \<Rightarrow> Transaction \<Rightarrow> bool" where
  "amountFails rule t =
     (case rule_expectedAmount rule of
        None \<Rightarrow> False
      | Some expected \<Rightarrow>
          (case rule_amountTolerance rule of
             None \<Rightarrow> False
           | Some tol \<Rightarrow> expected \<noteq> 0 \<and> expected * tol < \<bar>tx_amount t - expected\<bar>))"

definition matchesRule :: "ManualRecurringRule \<Rightarrow> Transaction \<Rightarrow> bool" where
  "matchesRule rule t =
     (if tx_type t \<noteq> rule_type rule then False
      else if \<not> includes_str (normalizeDescription (tx_description t))
                   (normalizeDescription (rule_descriptionPattern rule))
              \<and> \<not> includes_str (toLowerCase (tx_description t))
                     (toLowerCase (rule_descriptionPattern rule)) then False
      else if truthyStr (rule_category rule) \<and> Some (tx_category t) \<noteq> rule_category rule then False
      else if dayRangeFails rule t then False
      else if amountFails rule t then False
      else True)"

text \<open>\<open>x || d\<close> on an optional number or string.\<close>

definition orNum :: "real option \<Rightarrow> real \<Rightarrow> real" where
  "orNum x d = (case x of Some v \<Rightarrow> if v \<noteq> 0 then v else d | None \<Rightarrow> d)"

definition orInt :: "int option \<Rightarrow> int \<Rightarrow> int" where
  "orInt x d = (case x of Some v \<Rightarrow> if v \<noteq> 0 then v else d | None \<Rightarrow> d)"

definition orStr :: "string option \<Rightarrow> string \<Rightarrow> string" where
  "orStr x d = (case x of Some v \<Rightarrow> if v \<noteq> [] then v else d | None \<Rightarrow> d)"

text \<open>Case 1 of the matcher: the entry projected for a rule without matches.\<close>

definition projectedEntry :: "timestamp \<Rightarrow> ManualRecurringRule \<Rightarrow> RecurringTransaction" where
  "projectedEntry now rule =
     \<lparr> rt_description = ''Manual: '' @ rule_descriptionPattern rule,
       rt_category = orStr (rule_category rule) ''Uncategorized'',
       rt_amount = orNum (rule_expectedAmount rule) 0,
       rt_frequency = (if truthyInt (rule_intervalDays rule)
                       then determineFrequency (real_of_int (orInt (rule_intervalDays rule) 0))
                       else monthly),
       rt_intervalDays = orInt (rule_intervalDays rule) 30,
       rt_lastCharged = now,
       rt_occurrences = 0,
       rt_transactionIds = [],
       rt_isExclude = None,
       rt_ruleId = Some (rule_id rule) \<rparr>"

definition exclusionEntry :: "ManualRecurringRule \<Rightarrow> Transaction list \<Rightarrow> RecurringTransaction" where
  "exclusionEntry rule matched =
     \<lparr> rt_description = ''Excluded: '' @ rule_descriptionPattern rule,
       rt_category = tx_category (last matched),
       rt_amount = 0,
       rt_frequency = monthly,
       rt_intervalDays = 0,
       rt_lastCharged = tx_tradeDate (last matched),
       rt_occurrences = length matched,
       rt_transactionIds = map tx_id matched,
       rt_isExclude = Some True,
       rt_ruleId = Some (rule_id rule) \<rparr>"

text \<open>The mean interval of a rule with matches: the rule's own interval, else the mean
  gap of the matches, else 30.\<close>

definition manualAvgInterval :: "ManualRecurringRule \<Rightarrow> Transaction list \<Rightarrow> real" where
  "manualAvgInterval rule matched =
     (if truthyInt (rule_intervalDays rule) then real_of_int (orInt (rule_intervalDays rule) 0)
      else if 0 < length (intervalsOf matched)
      then real_of_int (sum_list (intervalsOf matched)) / real (length (intervalsOf matched))
      else 30)"

definition matchedEntry :: "ManualRecurringRule \<Rightarrow> Transaction list \<Rightarrow> RecurringTransaction" where
  "matchedEntry rule matched =
     \<lparr> rt_description = ''Manual: '' @ rule_descriptionPattern rule,
       rt_category = orStr (rule_category rule) (tx_category (last matched)),
       rt_amount = (if rule_useAverage rule
                    then sum_list (map tx_amount matched) / real (length matched)
                    else orNum (rule_expectedAmount rule) (tx_amount (last matched))),
       rt_frequency = determineFrequency (manualAvgInterval rule matched),
       rt_intervalDays = Math_round (manualAvgInterval rule matched),
       rt_lastCharged = tx_tradeDate (last matched),
       rt_occurrences = length matched,
       rt_transactionIds = map tx_id matched,
       rt_isExclude = None,
       rt_ruleId = Some (rule_id rule) \<rparr>"

text \<open>The body of the loop over the enabled rules: the entries one rule pushes.\<close>

definition ruleResult :: "timestamp \<Rightarrow> Transaction list \<Rightarrow> ManualRecurringRule
    \<Rightarrow> RecurringTransaction list" where
  "ruleResult now transactions rule =
     (if length (filter (matchesRule rule) transactions) = 0
      then (if (case transactions of [] \<Rightarrow> True | t # ts \<Rightarrow> tx_type t = rule_type rule)
               \<and> (truthyNum (rule_expectedAmount rule)
                    \<or> truthyStr (Some (rule_descriptionPattern rule)))
            then [projectedEntry now rule] else [])
      else if truthyBool (rule_isExclude rule)
      then [exclusionEntry rule (sort_key tx_tradeDate (filter (matchesRule rule) transactions))]
      else [matchedEntry rule (sort_key tx_tradeDate (filter (matchesRule rule) transactions))])"

definition detectManualRecurringTransactions :: "timestamp \<Rightarrow> Transaction list
    \<Rightarrow> ManualRecurringRule list \<Rightarrow> RecurringTransaction list" where
  "detectManualRecurringTransactions now transactions rules =
     concat (map (ruleResult now transactions) (filter rule_enabled rules))"

section \<open>Recurring-set merger\<close>

text \<open>The transactions left to the automatic detector and the entries it finds in them.\<close>

definition remainingTransactions :: "timestamp \<Rightarrow> Transaction list \<Rightarrow> ManualRecurringRule list
    \<Rightarrow> Transaction list" where
  "remainingTransactions now transactions manualRules =
     filter (\<lambda>t. tx_id t \<notin> set (concat (map rt_transactionIds
                (detectManualRecurringTransactions now transactions manualRules))))
       transactions"

definition automaticResults :: "timestamp \<Rightarrow> Transaction list \<Rightarrow> int \<Rightarrow> ManualRecurringRule list
    \<Rightarrow> RecurringTransaction list" where
  "automaticResults now transactions minOccurrences manualRules =
     List.map_filter (analyseGroup now minOccurrences)
       (map snd (groupByDescription
          (sort_key tx_tradeDate (remainingTransactions now transactions manualRules))))"

definition detectRecurringTransactions :: "timestamp \<Rightarrow> Transaction list \<Rightarrow> int
    \<Rightarrow> ManualRecurringRule list \<Rightarrow> RecurringTransaction list" where
  "detectRecurringTransactions now transactions minOccurrences manualRules =
     sort_key (\<lambda>e. - rt_amount e)
       (filter (\<lambda>m. \<not> truthyBool (rt_isExclude m))
          (detectManualRecurringTransactions now transactions manualRules)
        @ automaticResults now transactions minOccurrences manualRules)"

section \<open>Liquidity event projector\<close>

datatype eventType = income | expense

record event =
  ev_type :: eventType
  ev_description :: string
  ev_amount :: real

record LiquidityForecast =
  fc_date :: dateKey
  fc_projectedBalance :: real
  fc_event :: "event option"

text \<open>The event map: the events of each date key in the order they were pushed; a key
  that was never set reads as the empty list, as \<open>events.get(dateKey) || []\<close> does.\<close>

type_synonym eventMap = "dateKey \<Rightarrow> event list"

definition pushEvent :: "eventMap \<Rightarrow> dateKey \<Rightarrow> event \<Rightarrow> eventMap" where
  "pushEvent events dateKey e = events(dateKey := events dateKey @ [e])"

text \<open>
  The two \<open>while\<close> loops of the projector. Neither has a bound in the source, so each
  takes fuel and returns \<open>None\<close> when the fuel is used up before the loop condition fails.
\<close>

fun projectMonthEnds :: "nat \<Rightarrow> event \<Rightarrow> timestamp \<Rightarrow> int \<Rightarrow> timestamp \<Rightarrow> eventMap
    \<Rightarrow> eventMap option" where
  "projectMonthEnds 0 e startDate daysToProject nextDate events = None"
| "projectMonthEnds (Suc fuel) e startDate daysToProject nextDate events =
     (if differenceInDays nextDate startDate \<le> daysToProject
      then projectMonthEnds fuel e startDate daysToProject
             (lastDayOfMonth (addMonths nextDate 1))
             (pushEvent events (getDateKey nextDate) e)
      else Some events)"

fun projectIntervals :: "nat \<Rightarrow> event \<Rightarrow> timestamp \<Rightarrow> int \<Rightarrow> int \<Rightarrow> timestamp \<Rightarrow> eventMap
    \<Rightarrow> eventMap option" where
  "projectIntervals 0 e startDate daysToProject intervalDays nextDate events = None"
| "projectIntervals (Suc fuel) e startDate daysToProject intervalDays nextDate events =
     (if differenceInDays nextDate startDate \<le> daysToProject
      then projectIntervals fuel e startDate daysToProject intervalDays
             (addDays nextDate intervalDays)
             (if startDate \<le> nextDate then pushEvent events (getDateKey nextDate) e
              else events)
      else Some events)"

text \<open>The body of \<open>forEach\<close> over the incomes and over the expenses; the two bodies of
  the source differ in the event type only.\<close>

definition projectEntry :: "nat \<Rightarrow> eventType \<Rightarrow> timestamp \<Rightarrow> int \<Rightarrow> RecurringTransaction
    \<Rightarrow> eventMap \<Rightarrow> eventMap option" where
  "projectEntry fuel ty startDate daysToProject entry events =
     (if truthyStr (rt_ruleId entry)
      then projectMonthEnds fuel
             \<lparr> ev_type = ty, ev_description = rt_description entry, ev_amount = rt_amount entry \<rparr>
             startDate daysToProject
             (if lastDayOfMonth startDate < startDate
              then lastDayOfMonth (addMonths (lastDayOfMonth startDate) 1)
              else lastDayOfMonth startDate)
             events
      else projectIntervals fuel
             \<lparr> ev_type = ty, ev_description = rt_description entry, ev_amount = rt_amount entry \<rparr>
             startDate daysToProject (rt_intervalDays entry)
             (addDays (rt_lastCharged entry) (rt_intervalDays entry))
             events)"

fun projectEntries :: "nat \<Rightarrow> eventType \<Rightarrow> timestamp \<Rightarrow> int \<Rightarrow> RecurringTransaction list
    \<Rightarrow> eventMap \<Rightarrow> eventMap option" where
  "projectEntries fuel ty startDate daysToProject [] events = Some events"
| "projectEntries fuel ty startDate daysToProject (entry # entries) events =
     (case projectEntry fuel ty startDate daysToProject entry events of
        None \<Rightarrow> None
      | Some events' \<Rightarrow> projectEntries fuel ty startDate daysToProject entries events')"

definition applyEvent :: "real \<Rightarrow> event \<Rightarrow> real" where
  "applyEvent balance e =
     (if ev_type e = income then balance + ev_amount e else balance - ev_amount e)"

text \<open>The day-by-day loop \<open>for (day = 0; day <= daysToProject; day++)\<close>: the first
  argument counts the iterations left.\<close>

fun buildForecast :: "nat \<Rightarrow> eventMap \<Rightarrow> timestamp \<Rightarrow> int \<Rightarrow> real \<Rightarrow> LiquidityForecast list" where
  "buildForecast 0 events startDate day balance = []"
| "buildForecast (Suc n) events startDate day balance =
     (let dateKey = getDateKey (addDays startDate day);
          dayEvents = events dateKey;
          balance' = foldl applyEvent balance dayEvents
      in \<lparr> fc_date = dateKey,
            fc_projectedBalance = balance',
            fc_event = (case dayEvents of [] \<Rightarrow> None | e # es \<Rightarrow> Some e) \<rparr>
         # buildForecast n events startDate (day + 1) balance')"

definition projectLiquidity :: "nat \<Rightarrow> real \<Rightarrow> RecurringTransaction list
    \<Rightarrow> RecurringTransaction list \<Rightarrow> int \<Rightarrow> timestamp \<Rightarrow> LiquidityForecast list option" where
  "projectLiquidity fuel currentBalance recurringIncomes recurringExpenses daysToProject startDate =
     (case projectEntries fuel income startDate daysToProject recurringIncomes (\<lambda>k. []) of
        None \<Rightarrow> None
      | Some events1 \<Rightarrow>
          (case projectEntries fuel expense startDate daysToProject recurringExpenses events1 of
             None \<Rightarrow> None
           | Some events \<Rightarrow>
               Some (buildForecast (nat (daysToProject + 1)) events startDate 0 currentBalance)))"

section \<open>Safe-to-spend calculator\<close>

record SafeToSpendDetails =
  sts_safeToSpend :: real
  sts_reservedForBills :: real
  sts_daysUntilPayday :: int
  sts_nextPayday :: timestamp
  sts_buffer :: real
  sts_totalBalance :: real

text \<open>The loop \<open>while (isBefore(d, now)) d = addDays(d, intervalDays)\<close>, used for the
  payday and for every expense; fuel as above.\<close>

fun advanceToNow :: "nat \<Rightarrow> timestamp \<Rightarrow> int \<Rightarrow> timestamp \<Rightarrow> timestamp option" where
  "advanceToNow 0 now intervalDays d = None"
| "advanceToNow (Suc fuel) now intervalDays d =
     (if isBefore d now then advanceToNow fuel now intervalDays (addDays d intervalDays)
      else Some d)"

fun reserveForBills :: "nat \<Rightarrow> timestamp \<Rightarrow> timestamp \<Rightarrow> RecurringTransaction list \<Rightarrow> real
    \<Rightarrow> real option" where
  "reserveForBills fuel now nextPaydayDate [] reservedForBills = Some reservedForBills"
| "reserveForBills fuel now nextPaydayDate (bill # bills) reservedForBills =
     (case advanceToNow fuel now (rt_intervalDays bill) (rt_lastCharged bill) of
        None \<Rightarrow> None
      | Some nextOccurrence \<Rightarrow>
          reserveForBills fuel now nextPaydayDate bills
            (if \<not> isAfter nextOccurrence nextPaydayDate
             then reservedForBills + rt_amount bill else reservedForBills))"

definition nextPayday :: "nat \<Rightarrow> timestamp \<Rightarrow> RecurringTransaction list \<Rightarrow> timestamp option" where
  "nextPayday fuel now recurringIncomes =
     (case sort_key (\<lambda>e. - rt_amount e) recurringIncomes of
        [] \<Rightarrow> Some (addDays now 30)
      | mainPayday # others \<Rightarrow>
          advanceToNow fuel now (rt_intervalDays mainPayday) (rt_lastCharged mainPayday))"

definition calculateSafeToSpend :: "nat \<Rightarrow> timestamp \<Rightarrow> real \<Rightarrow> Transaction list
    \<Rightarrow> ManualRecurringRule list \<Rightarrow> real \<Rightarrow> SafeToSpendDetails option" where
  "calculateSafeToSpend fuel now currentBalance transactions manualRules buffer =
     (case nextPayday fuel now
             (detectRecurringTransactions now
                (filter (\<lambda>t. tx_type t = CREDIT) transactions) 2 manualRules) of
        None \<Rightarrow> None
      | Some nextPaydayDate \<Rightarrow>
          (case reserveForBills fuel now nextPaydayDate
                  (detectRecurringTransactions now
                     (filter (\<lambda>t. tx_type t = DEBIT) transactions) 2 manualRules) 0 of
             None \<Rightarrow> None
           | Some reservedForBills \<Rightarrow>
               Some \<lparr> sts_safeToSpend = max 0 (currentBalance - reservedForBills - buffer),
                      sts_reservedForBills = reservedForBills,
                      sts_daysUntilPayday = max 0 (differenceInDays nextPaydayDate now),
                      sts_nextPayday = nextPaydayDate,
                      sts_buffer = buffer,
                      sts_totalBalance = currentBalance \<rparr>))"

section \<open>The amount rule as the specification words it\<close>

text \<open>
  The specification computes the amount range across up to the most recent 12 occurrences,
  as it does the average. This definition follows those words, with the arithmetic of
  the program; \<open>representativeAmount\<close> above follows the source.
\<close>

definition spec_representativeAmount :: "Transaction list \<Rightarrow> real" where
  "spec_representativeAmount txns =
     (let recentAmounts = map tx_amount (drop (length txns - 12) txns);
          average = fdiv (foldl fadd 0 recentAmounts) (real (length recentAmounts));
          amountRange = fsub (Math_max recentAmounts) (Math_min recentAmounts)
      in if fmul average tenth < amountRange then average else tx_amount (last txns))"

section \<open>Concrete inputs\<close>

text \<open>A transaction booked and valued on its trade date, at local midnight of day
  \<open>day\<close> after \<open>2024-01-01\<close>.\<close>

definition day0 :: int where
  "day0 = days_of_civil 2024 1 1"

definition midnight :: "int \<Rightarrow> timestamp" where
  "midnight day = (day0 + day) * msPerDay"

definition mkTransaction :: "string \<Rightarrow> int \<Rightarrow> string \<Rightarrow> real \<Rightarrow> direction \<Rightarrow> Transaction" where
  "mkTransaction i day desc a ty =
     \<lparr> tx_id = i, tx_tradeDate = midnight day, tx_bookingDate = midnight day,
       tx_valueDate = midnight day, tx_description = desc, tx_amount = a, tx_type = ty,
       tx_balance = 0, tx_category = ''General'' \<rparr>"

text \<open>A rule as the rule dialog saves it: a pattern and a direction, no interval, no
  day window, tolerance 0.1.\<close>

definition mkRule :: "string \<Rightarrow> direction \<Rightarrow> string \<Rightarrow> bool \<Rightarrow> ManualRecurringRule" where
  "mkRule i ty pattern excl =
     \<lparr> rule_id = i, rule_type = ty, rule_descriptionPattern = pattern, rule_category = None,
       rule_dayRangeStart = None, rule_dayRangeEnd = None, rule_intervalDays = None,
       rule_expectedAmount = None, rule_amountTolerance = Some 0.1,
       rule_useAverage = (\<not> excl), rule_enabled = True, rule_isExclude = Some excl,
       rule_createdAt = ''2024-01-01T00:00:00.000Z'', rule_notes = None \<rparr>"

text \<open>Thirteen salary credits 30 days apart: 200 first, then 100 eleven times, then 101.\<close>

definition salaryTxns :: "Transaction list" where
  "salaryTxns =
     map (\<lambda>k. mkTransaction (''s'' @ replicate k (CHR ''i'')) (30 * int k) ''Salary Acme''
                (if k = 0 then 200 else if k = 12 then 101 else 100) CREDIT)
       [0..<13]"

text \<open>Three gym debits 30 days apart, on days 0, 30 and 60.\<close>

definition gymTxns :: "Transaction list" where
  "gymTxns =
     [mkTransaction ''g1'' 0 ''Gym Membership 001'' 49 DEBIT,
      mkTransaction ''g2'' 30 ''Gym Membership 002'' 49 DEBIT,
      mkTransaction ''g3'' 60 ''Gym Membership 003'' 49 DEBIT]"

text \<open>The first gym debit alone.\<close>

definition singleGymTxns :: "Transaction list" where
  "singleGymTxns = [mkTransaction ''g1'' 0 ''Gym Membership 001'' 49 DEBIT]"

text \<open>Two tea debits of 3.80 and 4.20, and two of 5.13 and 5.67, each amount the double
  its decimal denotes.\<close>

definition teaTxns :: "Transaction list" where
  "teaTxns =
     [mkTransaction ''t1'' 0 ''Tea House'' (fl (380 / 100)) DEBIT,
      mkTransaction ''t2'' 30 ''Tea House'' (fl (420 / 100)) DEBIT]"

definition cakeTxns :: "Transaction list" where
  "cakeTxns =
     [mkTransaction ''c1'' 0 ''Cake Shop'' (fl (513 / 100)) DEBIT,
      mkTransaction ''c2'' 30 ''Cake Shop'' (fl (567 / 100)) DEBIT]"

text \<open>Three debits with one description on the same day, and a rule for them.\<close>

definition sameDayTxns :: "Transaction list" where
  "sameDayTxns =
     [mkTransaction ''k1'' 5 ''Kiosk'' 3 DEBIT,
      mkTransaction ''k2'' 5 ''Kiosk'' 4 DEBIT,
      mkTransaction ''k3'' 5 ''Kiosk'' 5 DEBIT]"

text \<open>Two rent debits of 300, 30 days apart.\<close>

definition rentTxns :: "Transaction list" where
  "rentTxns =
     [mkTransaction ''r1'' 0 ''Rent 2024-01'' 300 DEBIT,
      mkTransaction ''r2'' 30 ''Rent 2024-02'' 300 DEBIT]"

text \<open>Two debits of one merchant on the same day, and a rule for that merchant.\<close>

definition bakeryTxns :: "Transaction list" where
  "bakeryTxns =
     [mkTransaction ''b1'' 20 ''Bakery Morning'' 4 DEBIT,
      mkTransaction ''b2'' 20 ''Bakery Evening'' 6 DEBIT]"

definition bakeryRule :: ManualRecurringRule where
  "bakeryRule = mkRule ''rule-bakery'' DEBIT ''bakery'' False"

definition kioskRule :: ManualRecurringRule where
  "kioskRule = mkRule ''rule-kiosk'' DEBIT ''kiosk'' False"

definition gymRule :: ManualRecurringRule where
  "gymRule = mkRule ''rule-gym'' DEBIT ''gym'' False"

definition gymExclusion :: ManualRecurringRule where
  "gymExclusion = mkRule ''rule-no-gym'' DEBIT ''gym'' True"

definition netflixExclusion :: ManualRecurringRule where
  "netflixExclusion = mkRule ''rule-no-netflix'' DEBIT ''netflix'' True"

text \<open>The expense of the forecast example: 100 every 30 days, last charged 2024-01-01,
  found by the automatic detector (no rule).\<close>

definition monthlyBill :: RecurringTransaction where
  "monthlyBill =
     \<lparr> rt_description = ''Bill'', rt_category = ''General'', rt_amount = 100,
       rt_frequency = monthly, rt_intervalDays = 30,
       rt_lastCharged = days_of_civil 2024 1 1 * msPerDay, rt_occurrences = 3,
       rt_transactionIds = [''b1'', ''b2'', ''b3''], rt_isExclude = None, rt_ruleId = None \<rparr>"

definition billEvent :: event where
  "billEvent = \<lparr> ev_type = expense, ev_description = ''Bill'', ev_amount = 100 \<rparr>"

text \<open>The entries the detector returns on these inputs.\<close>

definition gymEntry :: RecurringTransaction where
  "gymEntry =
     \<lparr> rt_description = ''Gym Membership 003'', rt_category = ''General'', rt_amount = 49,
       rt_frequency = monthly, rt_intervalDays = 30, rt_lastCharged = midnight 60,
       rt_occurrences = 3, rt_transactionIds = [''g1'', ''g2'', ''g3''],
       rt_isExclude = None, rt_ruleId = None \<rparr>"

definition salaryEntry :: RecurringTransaction where
  "salaryEntry =
     \<lparr> rt_description = ''Salary Acme'', rt_category = ''General'', rt_amount = fdiv 1201 12,
       rt_frequency = monthly, rt_intervalDays = 30, rt_lastCharged = midnight 360,
       rt_occurrences = 13, rt_transactionIds = map tx_id salaryTxns,
       rt_isExclude = None, rt_ruleId = None \<rparr>"

definition rentEntry :: RecurringTransaction where
  "rentEntry =
     \<lparr> rt_description = ''Rent 2024-02'', rt_category = ''General'', rt_amount = 300,
       rt_frequency = monthly, rt_intervalDays = 30, rt_lastCharged = midnight 30,
       rt_occurrences = 2, rt_transactionIds = [''r1'', ''r2''],
       rt_isExclude = None, rt_ruleId = None \<rparr>"

definition singleGymEntry :: RecurringTransaction where
  "singleGymEntry =
     \<lparr> rt_description = ''Manual: gym'', rt_category = ''General'', rt_amount = 49,
       rt_frequency = monthly, rt_intervalDays = 30, rt_lastCharged = midnight 0,
       rt_occurrences = 1, rt_transactionIds = [''g1''],
       rt_isExclude = None, rt_ruleId = Some ''rule-gym'' \<rparr>"

definition kioskEntry :: RecurringTransaction where
  "kioskEntry =
     \<lparr> rt_description = ''Manual: kiosk'', rt_category = ''General'', rt_amount = 4,
       rt_frequency = weekly, rt_intervalDays = 0, rt_lastCharged = midnight 5,
       rt_occurrences = 3, rt_transactionIds = [''k1'', ''k2'', ''k3''],
       rt_isExclude = None, rt_ruleId = Some ''rule-kiosk'' \<rparr>"

definition bakeryEntry :: RecurringTransaction where
  "bakeryEntry =
     \<lparr> rt_description = ''Manual: bakery'', rt_category = ''General'', rt_amount = 5,
       rt_frequency = weekly, rt_intervalDays = 0, rt_lastCharged = midnight 20,
       rt_occurrences = 2, rt_transactionIds = [''b1'', ''b2''],
       rt_isExclude = None, rt_ruleId = Some ''rule-bakery'' \<rparr>"

text \<open>The forecast of the example: 91 days from 2024-01-15, the bill on days 16, 46, 76.\<close>

definition exampleStart :: timestamp where
  "exampleStart = days_of_civil 2024 1 15 * msPerDay"

definition exampleForecast :: "LiquidityForecast list" where
  "exampleForecast =
     map (\<lambda>k. \<lparr> fc_date = civil_of_days (days_of_civil 2024 1 15 + k),
                 fc_projectedBalance =
                   (if k < 16 then 1000 else if k < 46 then 900 else if k < 76 then 800 else 700),
                 fc_event = (if k = 16 \<or> k = 46 \<or> k = 76 then Some billEvent else None) \<rparr>)
       [0..90]"

section \<open>Facts about the detector\<close>

lemma js_div_NaN_iff: "js_div a b = NaN \<longleftrightarrow> a = 0 \<and> b = 0"
  by (simp add: js_div_def)

lemma avgIntervalOf_Num:
  assumes "avgIntervalOf ivs = Num a"
  shows "ivs \<noteq> []" and "a = real_of_int (sum_list ivs) / real (length ivs)"
  using assms by (auto simp: avgIntervalOf_def js_div_def split: if_splits)

text \<open>The mean is a quotient by a length: it is a finite number or \<open>NaN\<close>, never an
  infinity, so the infinite cases of \<open>analyseGroup\<close> are never taken.\<close>

lemma avgIntervalOf_finite_or_NaN:
  "avgIntervalOf ivs \<noteq> PosInf \<and> avgIntervalOf ivs \<noteq> NegInf"
  by (auto simp: avgIntervalOf_def js_div_def)

lemma analyseGroup_SomeD:
  assumes "analyseGroup now m txns = Some e"
  shows "\<exists>avg. avgIntervalOf (intervalsOf txns) = Num avg \<and> 0 < avg
           \<and> isConsistent (varianceOf (Num avg) (intervalsOf txns))
           \<and> m \<le> int (length txns)
           \<and> \<not> avg * 2 < real_of_int (differenceInDays now (tx_tradeDate (last txns)))
           \<and> e = \<lparr> rt_description = tx_description (last txns),
                    rt_category = tx_category (last txns),
                    rt_amount = representativeAmount txns,
                    rt_frequency = determineFrequency avg,
                    rt_intervalDays = Math_round avg,
                    rt_lastCharged = tx_tradeDate (last txns),
                    rt_occurrences = length txns,
                    rt_transactionIds = map tx_id txns,
                    rt_isExclude = None,
                    rt_ruleId = None \<rparr>"
  using assms
  by (auto simp: analyseGroup_def Let_def split: if_splits jsnum.splits)

lemma analyseGroup_nonempty:
  assumes "analyseGroup now m txns = Some e"
  shows "txns \<noteq> []"
proof
  assume "txns = []"
  from analyseGroup_SomeD[OF assms] obtain avg where "avgIntervalOf (intervalsOf txns) = Num avg"
    by blast
  from avgIntervalOf_Num(1)[OF this] \<open>txns = []\<close> show False by simp
qed

lemma consistent_gap_positive:
  assumes "0 < avg" and "isConsistent (varianceOf (Num avg) ivs)" and "i \<in> set ivs"
  shows "1 \<le> i"
proof -
  from assms(2,3) have "js_lt (js_div \<bar>real_of_int i - avg\<bar> avg) 0.2"
    by (auto simp: isConsistent_def varianceOf_def relativeDeviation_def list_all_iff)
  with assms(1) have "\<bar>real_of_int i - avg\<bar> / avg < 0.2"
    by (simp add: js_div_def)
  with assms(1) have "\<bar>real_of_int i - avg\<bar> < 0.2 * avg"
    by (simp add: pos_divide_less_eq)
  with assms(1) have "0 < real_of_int i" by linarith
  then show ?thesis by linarith
qed

lemma sum_list_ge_length:
  "(\<forall>i\<in>set ivs. 1 \<le> i) \<Longrightarrow> int (length ivs) \<le> sum_list ivs"
  by (induction ivs) auto

lemma Math_round_ge_1: "1 \<le> x \<Longrightarrow> 1 \<le> Math_round x"
  by (simp add: Math_round_def le_floor_iff)

lemma analyseGroup_interval_ge_1:
  assumes "analyseGroup now m txns = Some e"
  shows "1 \<le> rt_intervalDays e"
proof -
  from analyseGroup_SomeD[OF assms] obtain avg where
    avg: "avgIntervalOf (intervalsOf txns) = Num avg" "0 < avg"
      "isConsistent (varianceOf (Num avg) (intervalsOf txns))"
    and e: "rt_intervalDays e = Math_round avg"
    by auto
  let ?ivs = "intervalsOf txns"
  have ne: "?ivs \<noteq> []" and eq: "avg = real_of_int (sum_list ?ivs) / real (length ?ivs)"
    using avgIntervalOf_Num[OF avg(1)] by auto
  have "\<forall>i\<in>set ?ivs. 1 \<le> i"
    using consistent_gap_positive[OF avg(2,3)] by blast
  then have "int (length ?ivs) \<le> sum_list ?ivs" by (rule sum_list_ge_length)
  then have "real (length ?ivs) \<le> real_of_int (sum_list ?ivs)" by linarith
  moreover have "0 < real (length ?ivs)" using ne by simp
  ultimately have "1 \<le> avg" unfolding eq by (simp add: le_divide_eq)
  then show ?thesis unfolding e by (rule Math_round_ge_1)
qed

lemma Math_max_Max: "xs \<noteq> [] \<Longrightarrow> Math_max xs = Max (set xs)"
  by (induction xs rule: Math_max.induct) (auto simp: max_def)

lemma Math_min_Min: "xs \<noteq> [] \<Longrightarrow> Math_min xs = Min (set xs)"
  by (induction xs rule: Math_min.induct) (auto simp: min_def)

section \<open>Facts about the matcher and the merger\<close>

lemma in_map_filter_iff:
  "e \<in> set (List.map_filter f xs) \<longleftrightarrow> (\<exists>x\<in>set xs. f x = Some e)"
  by (induction xs) (auto split: option.splits)

lemma ruleResult_cases:
  assumes "e \<in> set (ruleResult now transactions rule)"
  shows "(filter (matchesRule rule) transactions = [] \<and> e = projectedEntry now rule)
       \<or> (filter (matchesRule rule) transactions \<noteq> [] \<and> truthyBool (rule_isExclude rule)
            \<and> e = exclusionEntry rule (sort_key tx_tradeDate (filter (matchesRule rule) transactions)))
       \<or> (filter (matchesRule rule) transactions \<noteq> [] \<and> \<not> truthyBool (rule_isExclude rule)
            \<and> e = matchedEntry rule (sort_key tx_tradeDate (filter (matchesRule rule) transactions)))"
  using assms by (auto simp: ruleResult_def split: if_splits)

lemma in_detectManual_iff:
  "e \<in> set (detectManualRecurringTransactions now transactions rules)
     \<longleftrightarrow> (\<exists>rule\<in>set rules. rule_enabled rule \<and> e \<in> set (ruleResult now transactions rule))"
  by (auto simp: detectManualRecurringTransactions_def)

lemma manual_entry_shape:
  assumes "e \<in> set (ruleResult now transactions rule)"
  shows "rt_ruleId e = Some (rule_id rule)"
    and "rt_occurrences e = length (filter (matchesRule rule) transactions)"
    and "rt_transactionIds e = map tx_id (sort_key tx_tradeDate (filter (matchesRule rule) transactions))"
  using ruleResult_cases[OF assms]
  by (auto simp: projectedEntry_def exclusionEntry_def matchedEntry_def)

lemma in_detect_iff:
  "e \<in> set (detectRecurringTransactions now transactions m rules)
     \<longleftrightarrow> (e \<in> set (detectManualRecurringTransactions now transactions rules)
            \<and> \<not> truthyBool (rt_isExclude e))
         \<or> e \<in> set (automaticResults now transactions m rules)"
  by (auto simp: detectRecurringTransactions_def)

lemma in_automatic_iff:
  "e \<in> set (automaticResults now transactions m rules)
     \<longleftrightarrow> (\<exists>g\<in>set (groupByDescription
                  (sort_key tx_tradeDate (remainingTransactions now transactions rules))).
            analyseGroup now m (snd g) = Some e)"
  by (auto simp: automaticResults_def in_map_filter_iff)

text \<open>In the merged output the automatic entries are exactly those without a rule id.\<close>

lemma automatic_iff_no_ruleId:
  assumes "e \<in> set (detectRecurringTransactions now transactions m rules)"
  shows "rt_ruleId e = None \<longleftrightarrow> e \<in> set (automaticResults now transactions m rules)"
proof
  assume none: "rt_ruleId e = None"
  show "e \<in> set (automaticResults now transactions m rules)"
  proof (rule ccontr)
    assume "e \<notin> set (automaticResults now transactions m rules)"
    with assms have "e \<in> set (detectManualRecurringTransactions now transactions rules)"
      by (simp add: in_detect_iff)
    then obtain rule where "e \<in> set (ruleResult now transactions rule)"
      by (auto simp: in_detectManual_iff)
    from manual_entry_shape(1)[OF this] none show False by simp
  qed
next
  assume "e \<in> set (automaticResults now transactions m rules)"
  then obtain g :: "string \<times> Transaction list" where "analyseGroup now m (snd g) = Some e"
    by (auto simp: in_automatic_iff)
  from analyseGroup_SomeD[OF this] show "rt_ruleId e = None" by auto
qed

lemma addToGroup_members:
  "(\<Union>g\<in>set (addToGroup k t gs). set (snd g)) = insert t (\<Union>g\<in>set gs. set (snd g))"
  by (induction k t gs rule: addToGroup.induct) auto

lemma foldl_addToGroup_members:
  "(\<Union>g\<in>set (foldl (\<lambda>gs t. addToGroup (key t) t gs) acc xs). set (snd g))
     = (\<Union>g\<in>set acc. set (snd g)) \<union> set xs"
proof (induction xs arbitrary: acc)
  case Nil
  then show ?case by simp
next
  case (Cons x xs)
  show ?case
    by (simp only: foldl_Cons Cons.IH addToGroup_members) auto
qed

lemma group_subset:
  assumes "g \<in> set (groupByDescription xs)"
  shows "set (snd g) \<subseteq> set xs"
proof -
  have "(\<Union>g\<in>set (groupByDescription xs). set (snd g)) = set xs"
    unfolding groupByDescription_def by (simp only: foldl_addToGroup_members) simp
  with assms show ?thesis by blast
qed

lemma automatic_ids_remaining:
  assumes "e \<in> set (automaticResults now transactions m rules)"
  shows "set (rt_transactionIds e) \<subseteq> tx_id ` set (remainingTransactions now transactions rules)"
proof -
  from assms obtain g where
    g: "g \<in> set (groupByDescription (sort_key tx_tradeDate (remainingTransactions now transactions rules)))"
    and e: "analyseGroup now m (snd g) = Some e"
    by (auto simp: in_automatic_iff)
  from group_subset[OF g] have "set (snd g) \<subseteq> set (remainingTransactions now transactions rules)"
    by simp
  moreover from analyseGroup_SomeD[OF e] have "rt_transactionIds e = map tx_id (snd g)" by auto
  ultimately show ?thesis by auto
qed

text \<open>Every transaction a rule matches has its id in an entry of the matcher.\<close>

lemma matched_id_consumed:
  assumes "rule \<in> set rules" "rule_enabled rule" "t \<in> set transactions" "matchesRule rule t"
  shows "tx_id t \<in> set (concat (map rt_transactionIds
           (detectManualRecurringTransactions now transactions rules)))"
proof -
  let ?matched = "filter (matchesRule rule) transactions"
  from assms(3,4) have t: "t \<in> set ?matched" by simp
  then have ne: "?matched \<noteq> []" by (metis empty_iff empty_set)
  define e where "e = (if truthyBool (rule_isExclude rule)
     then exclusionEntry rule (sort_key tx_tradeDate ?matched)
     else matchedEntry rule (sort_key tx_tradeDate ?matched))"
  have "e \<in> set (ruleResult now transactions rule)"
    using ne by (simp add: ruleResult_def e_def)
  with assms(1,2) have 1: "e \<in> set (detectManualRecurringTransactions now transactions rules)"
    by (auto simp: in_detectManual_iff)
  have "rt_transactionIds e = map tx_id (sort_key tx_tradeDate ?matched)"
    by (simp add: e_def exclusionEntry_def matchedEntry_def)
  with t have 2: "tx_id t \<in> set (rt_transactionIds e)" by simp
  from 1 2 show ?thesis by auto
qed

lemma remaining_ids:
  assumes "t' \<in> set (remainingTransactions now transactions rules)"
  shows "tx_id t' \<notin> set (concat (map rt_transactionIds
           (detectManualRecurringTransactions now transactions rules)))"
  using assms by (simp add: remainingTransactions_def)

section \<open>The program on the concrete inputs\<close>

lemma detect_gym: "detectRecurringTransactions (midnight 70) gymTxns 3 [] = [gymEntry]"
  by code_simp

text \<open>At exactly twice the mean gap (60 days after the last debit) the group is kept.\<close>

lemma detect_gym_at_120: "detectRecurringTransactions (midnight 120) gymTxns 3 [] = [gymEntry]"
  by code_simp

lemma detect_single_gym:
  "detectRecurringTransactions (midnight 70) singleGymTxns 3 [gymRule] = [singleGymEntry]"
  by code_simp

lemma detect_excluded_gym:
  "detectRecurringTransactions (midnight 70) (gymTxns @ rentTxns) 2 [gymExclusion] = [rentEntry]"
  by code_simp

lemma detect_bakery_debits:
  "detectRecurringTransactions (midnight 30) (filter (\<lambda>t. tx_type t = DEBIT) bakeryTxns) 2 [bakeryRule]
     = [bakeryEntry]"
  by code_simp

lemma salary_eval: "analyseGroup (midnight 370) 3 salaryTxns = Some salaryEntry"
  by code_simp

lemma gym_group_eval: "analyseGroup (midnight 70) 3 gymTxns = Some gymEntry"
  by code_simp

lemma same_day_mean: "avgIntervalOf (intervalsOf sameDayTxns) = Num 0"
  by code_simp

lemma gym_mean: "avgIntervalOf (intervalsOf gymTxns) = Num 30"
  by code_simp

lemma gym_days_since: "differenceInDays (midnight 121) (tx_tradeDate (last gymTxns)) = 61"
  by code_simp

lemma gym_consistent:
  "isConsistent (varianceOf (avgIntervalOf (intervalsOf gymTxns)) (intervalsOf gymTxns))"
  by code_simp

lemma safe_eval:
  "calculateSafeToSpend 10 (midnight 40) 2000 rentTxns [] 500
     = Some \<lparr> sts_safeToSpend = 1200, sts_reservedForBills = 300, sts_daysUntilPayday = 30,
              sts_nextPayday = midnight 70, sts_buffer = 500, sts_totalBalance = 2000 \<rparr>"
  by code_simp

lemma safe_eval_low:
  "calculateSafeToSpend 10 (midnight 40) 700 rentTxns [] 500
     = Some \<lparr> sts_safeToSpend = 0, sts_reservedForBills = 300, sts_daysUntilPayday = 30,
              sts_nextPayday = midnight 70, sts_buffer = 500, sts_totalBalance = 700 \<rparr>"
  by code_simp

lemma gym_exclusion_facts:
  "gymExclusion \<in> set [gymExclusion] \<and> rule_enabled gymExclusion
   \<and> truthyBool (rule_isExclude gymExclusion)
   \<and> mkTransaction ''g1'' 0 ''Gym Membership 001'' 49 DEBIT \<in> set (gymTxns @ rentTxns)
   \<and> matchesRule gymExclusion (mkTransaction ''g1'' 0 ''Gym Membership 001'' 49 DEBIT)"
  by code_simp

lemma netflix_exclusion_facts:
  "netflixExclusion \<in> set [netflixExclusion] \<and> rule_enabled netflixExclusion
   \<and> rule_isExclude netflixExclusion = Some True
   \<and> rule_descriptionPattern netflixExclusion \<noteq> []
   \<and> filter (matchesRule netflixExclusion) gymTxns = []
   \<and> (gymTxns = [] \<or> tx_type (hd gymTxns) = rule_type netflixExclusion)"
  by code_simp

lemma bakery_before_now: "midnight 20 < midnight 30"
  by code_simp

lemma detect_kiosk_debits:
  "detectRecurringTransactions (midnight 10) (filter (\<lambda>t. tx_type t = DEBIT) sameDayTxns) 2 [kioskRule]
     = [kioskEntry]"
  by code_simp

lemma kiosk_before_now: "midnight 5 < midnight 10"
  by code_simp

text \<open>The constant \<open>tenth\<close> is the rounding of one tenth, and the amounts of the examples
  are doubles.\<close>

lemma tenth_rounded: "fl (1 / 10) = tenth"
  by code_simp

lemma salary_amounts_plain:
  "list_all (\<lambda>t. isDouble (tx_amount t) \<and> \<bar>tx_amount t\<bar> \<le> 200) salaryTxns"
  by code_simp

lemma gym_amounts_plain:
  "list_all (\<lambda>t. isDouble (tx_amount t) \<and> \<bar>tx_amount t\<bar> \<le> 200) gymTxns"
  by code_simp

text \<open>Two amounts with cents on which the outcome of the rule turns on the rounding: on
  3.80 and 4.20 the rounded range exceeds the rounded tenth of the average 4, and the
  average is returned, where the exact range 0.4 does not exceed the exact tenth 0.4; on
  5.13 and 5.67 the rounded range equals the rounded tenth of the average, and the last
  amount is returned.\<close>

lemma detect_tea:
  "map rt_amount (detectRecurringTransactions (midnight 40) teaTxns 2 []) = [4]"
  by code_simp

lemma detect_cake:
  "map rt_amount (detectRecurringTransactions (midnight 40) cakeTxns 2 []) = [fl (567 / 100)]"
  by code_simp

lemma example_dates:
  "map (\<lambda>k. civil_of_days (days_of_civil 2024 1 15 + k)) [0, 16, 46, 76, 90]
     = [(2024, 1, 15), (2024, 1, 31), (2024, 3, 1), (2024, 3, 31), (2024, 4, 14)]"
  by code_simp

text \<open>With a zero interval the advancing loop never reaches \<open>now\<close>, whatever the fuel.\<close>

lemma advance_zero_interval:
  "d < now \<Longrightarrow> advanceToNow fuel now 0 d = None"
  by (induction fuel) (simp_all add: isBefore_def addDays_def)

text \<open>In a group of mean zero whose gaps are not negative (the transactions are sorted),
  every relative deviation is \<open>NaN\<close>.\<close>

lemma zero_mean_all_NaN:
  assumes "avgIntervalOf ivs = Num 0" and "\<forall>i\<in>set ivs. 0 \<le> i"
  shows "varianceOf (avgIntervalOf ivs) ivs = map (\<lambda>i. NaN) ivs"
proof -
  from avgIntervalOf_Num[OF assms(1)] have "sum_list ivs = 0" by auto
  with assms(2) have "\<forall>i\<in>set ivs. i = 0"
    by (simp add: sum_list_nonneg_eq_0_iff)
  then show ?thesis
    unfolding assms(1) by (simp add: varianceOf_def relativeDeviation_def js_div_def)
qed

section \<open>Facts about the safe-to-spend calculator\<close>

text \<open>What the calculator returns is the clamped value.\<close>

lemma safeToSpend_value_when_returned:
  assumes "calculateSafeToSpend fuel now currentBalance transactions manualRules buffer = Some r"
  shows "sts_safeToSpend r = max 0 (currentBalance - sts_reservedForBills r - buffer)
       \<and> 0 \<le> sts_safeToSpend r
       \<and> (currentBalance < sts_reservedForBills r + buffer \<longrightarrow> sts_safeToSpend r = 0)
       \<and> sts_buffer r = buffer \<and> sts_totalBalance r = currentBalance"
  using assms
  by (auto simp: calculateSafeToSpend_def split: option.splits)

lemma msPerDay_pos: "0 < msPerDay"
  by (simp add: msPerDay_def)

text \<open>With an interval of at least one day the advancing loop ends, and more fuel does
  not change its result.\<close>

lemma advanceToNow_returns:
  assumes "1 \<le> k"
  shows "now - d \<le> int n * msPerDay \<Longrightarrow> \<exists>d'. advanceToNow (Suc n) now k d = Some d'"
proof (induction n arbitrary: d)
  case 0
  then show ?case by (simp add: isBefore_def)
next
  case (Suc n)
  have "msPerDay \<le> k * msPerDay" using assms msPerDay_pos by simp
  with Suc.prems have "now - addDays d k \<le> int n * msPerDay"
    by (simp add: addDays_def algebra_simps)
  from Suc.IH[OF this] show ?case by simp
qed

lemma advanceToNow_more_fuel:
  "advanceToNow fuel now k d = Some d' \<Longrightarrow> advanceToNow (fuel + extra) now k d = Some d'"
  by (induction fuel arbitrary: d) (auto split: if_splits)

lemma advanceToNow_total:
  assumes "1 \<le> k"
  shows "\<exists>n d'. \<forall>fuel\<ge>n. advanceToNow fuel now k d = Some d'"
proof -
  have "now - d \<le> int (nat (now - d)) * msPerDay"
    using msPerDay_pos by (cases "now - d \<le> 0") (simp_all add: mult_le_cancel_left1 msPerDay_def)
  from advanceToNow_returns[OF assms this] obtain d' where
    d': "advanceToNow (Suc (nat (now - d))) now k d = Some d'" by blast
  have "advanceToNow fuel now k d = Some d'" if "Suc (nat (now - d)) \<le> fuel" for fuel
    using advanceToNow_more_fuel[OF d', of "fuel - Suc (nat (now - d))"] that by simp
  then show ?thesis by blast
qed

lemma reserveForBills_total:
  assumes "\<forall>e\<in>set bills. 1 \<le> rt_intervalDays e"
  shows "\<exists>n r. \<forall>fuel\<ge>n. reserveForBills fuel now p bills acc = Some r"
  using assms
proof (induction bills arbitrary: acc)
  case Nil
  then show ?case by simp
next
  case (Cons b bills)
  from Cons.prems have "1 \<le> rt_intervalDays b" by simp
  from advanceToNow_total[OF this] obtain n1 d' where
    n1: "\<forall>fuel\<ge>n1. advanceToNow fuel now (rt_intervalDays b) (rt_lastCharged b) = Some d'"
    by blast
  from Cons.prems have "\<forall>e\<in>set bills. 1 \<le> rt_intervalDays e" by simp
  from Cons.IH[OF this] obtain n2 r where
    n2: "\<forall>fuel\<ge>n2. reserveForBills fuel now p bills
            (if \<not> isAfter d' p then acc + rt_amount b else acc) = Some r"
    by blast
  have "reserveForBills fuel now p (b # bills) acc = Some r" if "max n1 n2 \<le> fuel" for fuel
    using n1 n2 that by simp
  then show ?case by blast
qed

lemma nextPayday_total:
  assumes "\<forall>e\<in>set incomes. 1 \<le> rt_intervalDays e"
  shows "\<exists>n p. \<forall>fuel\<ge>n. nextPayday fuel now incomes = Some p"
proof (cases "sort_key (\<lambda>e. - rt_amount e) incomes")
  case Nil
  then show ?thesis by (simp add: nextPayday_def)
next
  case (Cons mainPayday others)
  then have "mainPayday \<in> set (sort_key (\<lambda>e. - rt_amount e) incomes)" by simp
  then have "mainPayday \<in> set incomes" by simp
  with assms have "1 \<le> rt_intervalDays mainPayday" by blast
  from advanceToNow_total[OF this] Cons show ?thesis by (simp add: nextPayday_def)
qed

text \<open>Where every detected income and expense has an interval of at least one day, the
  calculator returns with enough fuel, and it returns the clamped value.\<close>

lemma safeToSpend_returns_clamped:
  assumes "\<forall>e\<in>set (detectRecurringTransactions now
                      (filter (\<lambda>t. tx_type t = CREDIT) transactions) 2 manualRules).
             1 \<le> rt_intervalDays e"
    and "\<forall>e\<in>set (detectRecurringTransactions now
                      (filter (\<lambda>t. tx_type t = DEBIT) transactions) 2 manualRules).
             1 \<le> rt_intervalDays e"
  shows "\<exists>n r. \<forall>fuel\<ge>n.
           calculateSafeToSpend fuel now currentBalance transactions manualRules buffer = Some r
           \<and> sts_safeToSpend r = max 0 (currentBalance - sts_reservedForBills r - buffer)
           \<and> 0 \<le> sts_safeToSpend r
           \<and> (currentBalance < sts_reservedForBills r + buffer \<longrightarrow> sts_safeToSpend r = 0)"
proof -
  from nextPayday_total[OF assms(1)] obtain n1 p where
    n1: "\<forall>fuel\<ge>n1. nextPayday fuel now (detectRecurringTransactions now
           (filter (\<lambda>t. tx_type t = CREDIT) transactions) 2 manualRules) = Some p"
    by blast
  from reserveForBills_total[OF assms(2)] obtain n2 res where
    n2: "\<forall>fuel\<ge>n2. reserveForBills fuel now p (detectRecurringTransactions now
           (filter (\<lambda>t. tx_type t = DEBIT) transactions) 2 manualRules) 0 = Some res"
    by blast
  define r where "r = \<lparr> sts_safeToSpend = max 0 (currentBalance - res - buffer),
                      sts_reservedForBills = res,
                      sts_daysUntilPayday = max 0 (differenceInDays p now),
                      sts_nextPayday = p,
                      sts_buffer = buffer,
                      sts_totalBalance = currentBalance \<rparr>"
  have "calculateSafeToSpend fuel now currentBalance transactions manualRules buffer = Some r"
    if "max n1 n2 \<le> fuel" for fuel
    using n1 n2 that by (simp add: calculateSafeToSpend_def r_def)
  moreover have "sts_safeToSpend r = max 0 (currentBalance - sts_reservedForBills r - buffer)"
    and "0 \<le> sts_safeToSpend r"
    and "currentBalance < sts_reservedForBills r + buffer \<longrightarrow> sts_safeToSpend r = 0"
    by (auto simp: r_def)
  ultimately show ?thesis by blast
qed

section \<open>The claims\<close>

text \<open>
  C1 (amended). For every group that survives the threshold, consistency and staleness
  checks, the amount range that decides variability is computed across all occurrences of
  the group, not only the most recent 12: if (max - min) over all amounts exceeds 0.10
  times the average of the most recent at most 12 amounts, the representative amount is
  that average; otherwise it is the most recent transaction's exact amount. The
  arithmetic is the program's double arithmetic: the average is the rounded quotient of
  the sum, added from the left with every sum rounded, by the number of amounts, and the
  test compares the rounded difference with the rounded product by the double \<open>0.1\<close>. The
  amounts are doubles of magnitude at most \<open>2^1000\<close>, so that nothing overflows. For a
  group of at most 12 occurrences this is the rule as the specification words it.
\<close>

theorem representative_amount_range_over_all:
  assumes "analyseGroup now m txns = Some e"
    and "list_all (\<lambda>t. isDouble (tx_amount t) \<and> \<bar>tx_amount t\<bar> \<le> 2 ^ 1000) txns"
  shows "rt_amount e =
           (let recentAmounts = map tx_amount (drop (length txns - 12) txns);
                average = fdiv (foldl fadd 0 recentAmounts) (real (length recentAmounts))
            in if fmul average tenth
                    < fsub (Max (tx_amount ` set txns)) (Min (tx_amount ` set txns))
               then average else tx_amount (last txns))
         \<and> (length txns \<le> 12 \<longrightarrow> rt_amount e = spec_representativeAmount txns)"
proof -
  have ne: "txns \<noteq> []" using assms(1) by (rule analyseGroup_nonempty)
  from analyseGroup_SomeD[OF assms(1)] have amt: "rt_amount e = representativeAmount txns"
    by auto
  have mx: "Math_max (map tx_amount txns) = Max (tx_amount ` set txns)"
    using ne by (simp add: Math_max_Max)
  have mn: "Math_min (map tx_amount txns) = Min (tx_amount ` set txns)"
    using ne by (simp add: Math_min_Min)
  have 1: "representativeAmount txns =
           (let recentAmounts = map tx_amount (drop (length txns - 12) txns);
                average = fdiv (foldl fadd 0 recentAmounts) (real (length recentAmounts))
            in if fmul average tenth
                    < fsub (Max (tx_amount ` set txns)) (Min (tx_amount ` set txns))
               then average else tx_amount (last txns))"
    unfolding representativeAmount_def Let_def mx mn by simp
  have 2: "length txns \<le> 12 \<Longrightarrow> representativeAmount txns = spec_representativeAmount txns"
    unfolding representativeAmount_def spec_representativeAmount_def Let_def
    by simp
  from 1 2 show ?thesis unfolding amt by blast
qed

text \<open>The theorem on the thirteen salary credits, and on the three gym debits, where the
  group has at most 12 occurrences.\<close>

theorem representative_amount_range_over_all_witness:
  "analyseGroup (midnight 370) 3 salaryTxns = Some salaryEntry
   \<and> list_all (\<lambda>t. isDouble (tx_amount t) \<and> \<bar>tx_amount t\<bar> \<le> 2 ^ 1000) salaryTxns
   \<and> rt_amount salaryEntry =
           (let recentAmounts = map tx_amount (drop (length salaryTxns - 12) salaryTxns);
                average = fdiv (foldl fadd 0 recentAmounts) (real (length recentAmounts))
            in if fmul average tenth
                    < fsub (Max (tx_amount ` set salaryTxns)) (Min (tx_amount ` set salaryTxns))
               then average else tx_amount (last salaryTxns))
   \<and> analyseGroup (midnight 70) 3 gymTxns = Some gymEntry
   \<and> list_all (\<lambda>t. isDouble (tx_amount t) \<and> \<bar>tx_amount t\<bar> \<le> 2 ^ 1000) gymTxns
   \<and> length gymTxns \<le> 12
   \<and> rt_amount gymEntry = spec_representativeAmount gymTxns"
proof -
  have b: "(200::real) \<le> 2 ^ 1000" by simp
  have s: "list_all (\<lambda>t. isDouble (tx_amount t) \<and> \<bar>tx_amount t\<bar> \<le> 2 ^ 1000) salaryTxns"
    using salary_amounts_plain b by (auto simp: list_all_iff)
  have g: "list_all (\<lambda>t. isDouble (tx_amount t) \<and> \<bar>tx_amount t\<bar> \<le> 2 ^ 1000) gymTxns"
    using gym_amounts_plain b by (auto simp: list_all_iff)
  have len: "length gymTxns \<le> 12" by (simp add: gymTxns_def)
  from salary_eval gym_group_eval len s g
    representative_amount_range_over_all[OF salary_eval s]
    representative_amount_range_over_all[OF gym_group_eval g]
  show ?thesis by blast
qed

text \<open>
  C1 as stated fails on the thirteen salary credits (200 first, then 100 eleven times,
  then 101): over the most recent 12 the range is 1, below a tenth of their average, so
  the rule as stated gives the last amount 101; the program takes the range over all 13,
  which is 100, and returns the average, the double nearest to 1201 / 12.
\<close>

theorem representative_amount_recent_range_counterexample:
  "map rt_amount (detectRecurringTransactions (midnight 370) salaryTxns 3 []) = [fdiv 1201 12]
   \<and> fdiv 1201 12 = 7042738479781205 / 70368744177664
   \<and> spec_representativeAmount salaryTxns = 101"
  by code_simp

text \<open>
  C2. The claim is that \<open>calculateSafeToSpend\<close> terminates on every input. On two debits of
  one merchant on the same day and a rule for that merchant, the matcher emits an entry
  with \<open>intervalDays = 0\<close> whose last charge is before now, and the loop that advances that
  date by its interval never ends: with any amount of fuel the result is \<open>None\<close>.
\<close>

theorem safeToSpend_never_returns:
  "calculateSafeToSpend fuel (midnight 30) 1000 bakeryTxns [bakeryRule] 500 = None"
proof -
  have "advanceToNow fuel (midnight 30) (rt_intervalDays bakeryEntry) (rt_lastCharged bakeryEntry) = None"
    using advance_zero_interval[OF bakery_before_now] by (simp add: bakeryEntry_def)
  then have "reserveForBills fuel (midnight 30) p [bakeryEntry] 0 = None" for p
    by simp
  then show ?thesis
    by (simp add: calculateSafeToSpend_def detect_bakery_debits split: option.splits)
qed

text \<open>
  C3 (amended). Every entry of the output of \<open>detectRecurringTransactions\<close> without a rule
  id has at least \<open>minOccurrences\<close> occurrences. Every entry with a rule id comes from an
  enabled rule and its occurrences are the number of transactions that rule matches,
  whatever that number is, also below \<open>minOccurrences\<close>. In every entry the occurrences are
  the number of transaction ids, so an entry without matches has none.
\<close>

theorem occurrences_invariant:
  assumes "e \<in> set (detectRecurringTransactions now transactions m rules)"
  shows "(rt_ruleId e = None \<longrightarrow> m \<le> int (rt_occurrences e))
       \<and> (rt_ruleId e \<noteq> None \<longrightarrow>
            (\<exists>rule\<in>set rules. rule_enabled rule \<and> rt_ruleId e = Some (rule_id rule)
               \<and> rt_occurrences e = length (filter (matchesRule rule) transactions)))
       \<and> length (rt_transactionIds e) = rt_occurrences e"
proof (cases "e \<in> set (automaticResults now transactions m rules)")
  case True
  then obtain g :: "string \<times> Transaction list" where "analyseGroup now m (snd g) = Some e"
    by (auto simp: in_automatic_iff)
  from analyseGroup_SomeD[OF this] show ?thesis by auto
next
  case False
  with assms have "e \<in> set (detectManualRecurringTransactions now transactions rules)"
    by (simp add: in_detect_iff)
  then obtain rule where r: "rule \<in> set rules" "rule_enabled rule"
    and e: "e \<in> set (ruleResult now transactions rule)"
    by (auto simp: in_detectManual_iff)
  from manual_entry_shape[OF e] r show ?thesis by auto
qed

text \<open>The theorem on a rule-backed entry with one match and on an automatic entry.\<close>

theorem occurrences_invariant_witness:
  "singleGymEntry \<in> set (detectRecurringTransactions (midnight 70) singleGymTxns 3 [gymRule])
   \<and> rt_ruleId singleGymEntry = Some (rule_id gymRule)
   \<and> rt_occurrences singleGymEntry = length (filter (matchesRule gymRule) singleGymTxns)
   \<and> length (rt_transactionIds singleGymEntry) = rt_occurrences singleGymEntry
   \<and> gymEntry \<in> set (detectRecurringTransactions (midnight 70) gymTxns 3 [])
   \<and> rt_ruleId gymEntry = None
   \<and> 3 \<le> int (rt_occurrences gymEntry)"
proof -
  have h: "singleGymEntry \<in> set (detectRecurringTransactions (midnight 70) singleGymTxns 3 [gymRule])"
    unfolding detect_single_gym by simp
  have g: "gymEntry \<in> set (detectRecurringTransactions (midnight 70) gymTxns 3 [])"
    unfolding detect_gym by simp
  have r: "rt_ruleId singleGymEntry = Some (rule_id gymRule)"
    by (simp add: singleGymEntry_def gymRule_def mkRule_def)
  have n: "rt_ruleId gymEntry = None" by (simp add: gymEntry_def)
  from r occurrences_invariant[OF h]
  have 1: "rt_occurrences singleGymEntry = length (filter (matchesRule gymRule) singleGymTxns)"
    and 2: "length (rt_transactionIds singleGymEntry) = rt_occurrences singleGymEntry"
    by auto
  from n occurrences_invariant[OF g] have 3: "3 \<le> int (rt_occurrences gymEntry)" by blast
  from h g r n 1 2 3 show ?thesis by blast
qed

text \<open>
  C3 as stated fails on one gym debit and a rule that matches it, with
  \<open>minOccurrences = 3\<close>: the output is one rule-backed entry with one occurrence and one
  transaction id, neither at least 3 nor zero.
\<close>

theorem occurrences_threshold_counterexample:
  "map rt_occurrences (detectRecurringTransactions (midnight 70) singleGymTxns 3 [gymRule]) = [1]
   \<and> map rt_ruleId (detectRecurringTransactions (midnight 70) singleGymTxns 3 [gymRule])
       = [Some ''rule-gym'']
   \<and> map rt_transactionIds (detectRecurringTransactions (midnight 70) singleGymTxns 3 [gymRule])
       = [[''g1'']]"
  by (simp add: detect_single_gym singleGymEntry_def)

text \<open>
  C4 (amended). A group whose mean interval is zero contributes no entry. The test
  \<open>avgInterval > 0\<close> comes after the per-gap relative deviations have been computed, so for
  such a group they are computed with the zero mean as divisor. Only in a group that
  contributes an entry is the mean a positive finite number and every deviation the
  ordinary quotient \<open>|gap - mean| / mean\<close>.
\<close>

theorem zero_mean_group_rejected:
  "(avgIntervalOf (intervalsOf txns) = Num 0 \<longrightarrow> analyseGroup now m txns = None)
   \<and> (analyseGroup now m txns = Some e \<longrightarrow>
        (\<exists>a. avgIntervalOf (intervalsOf txns) = Num a \<and> 0 < a
           \<and> varianceOf (avgIntervalOf (intervalsOf txns)) (intervalsOf txns)
               = map (\<lambda>i. Num (\<bar>real_of_int i - a\<bar> / a)) (intervalsOf txns)))"
proof (intro conjI impI)
  assume z: "avgIntervalOf (intervalsOf txns) = Num 0"
  show "analyseGroup now m txns = None"
  proof (cases "analyseGroup now m txns")
    case None then show ?thesis .
  next
    case (Some e')
    from analyseGroup_SomeD[OF Some] z show ?thesis by auto
  qed
next
  assume "analyseGroup now m txns = Some e"
  from analyseGroup_SomeD[OF this] obtain a where
    a: "avgIntervalOf (intervalsOf txns) = Num a" "0 < a" by blast
  have "varianceOf (Num a) (intervalsOf txns)
          = map (\<lambda>i. Num (\<bar>real_of_int i - a\<bar> / a)) (intervalsOf txns)"
    using a(2) by (simp add: varianceOf_def relativeDeviation_def js_div_def)
  with a show "\<exists>a. avgIntervalOf (intervalsOf txns) = Num a \<and> 0 < a
           \<and> varianceOf (avgIntervalOf (intervalsOf txns)) (intervalsOf txns)
               = map (\<lambda>i. Num (\<bar>real_of_int i - a\<bar> / a)) (intervalsOf txns)"
    by auto
qed

text \<open>The theorem on the three same-day debits (mean zero) and on the gym debits.\<close>

theorem zero_mean_group_rejected_witness:
  "avgIntervalOf (intervalsOf sameDayTxns) = Num 0
   \<and> analyseGroup (midnight 10) 3 sameDayTxns = None
   \<and> analyseGroup (midnight 70) 3 gymTxns = Some gymEntry
   \<and> (\<exists>a. avgIntervalOf (intervalsOf gymTxns) = Num a \<and> 0 < a
           \<and> varianceOf (avgIntervalOf (intervalsOf gymTxns)) (intervalsOf gymTxns)
               = map (\<lambda>i. Num (\<bar>real_of_int i - a\<bar> / a)) (intervalsOf gymTxns))"
  using same_day_mean gym_group_eval
    zero_mean_group_rejected[of sameDayTxns "midnight 10" 3]
    zero_mean_group_rejected[of gymTxns "midnight 70" 3 gymEntry]
  by blast

text \<open>
  C4 as stated fails on three debits of one description on the same day: the mean interval
  is zero and both relative deviations are \<open>NaN\<close>, which only the division of zero by
  zero produces (\<open>js_div_NaN_iff\<close>): the deviations were divided by the zero mean.
\<close>

theorem zero_mean_division_counterexample:
  "avgIntervalOf (intervalsOf sameDayTxns) = Num 0
   \<and> varianceOf (avgIntervalOf (intervalsOf sameDayTxns)) (intervalsOf sameDayTxns) = [NaN, NaN]"
  by code_simp

text \<open>
  C5. If today minus the date of a group's last transaction exceeds twice the group's mean
  gap, the group contributes no entry to the automatic output, however regular its
  history and whatever the threshold.
\<close>

theorem stale_group_discarded:
  assumes "avgIntervalOf (intervalsOf txns) = Num meanGap"
    and "2 * meanGap < real_of_int (differenceInDays now (tx_tradeDate (last txns)))"
  shows "analyseGroup now m txns = None"
proof (cases "analyseGroup now m txns")
  case None then show ?thesis .
next
  case (Some e)
  from analyseGroup_SomeD[OF Some] assms show ?thesis by (auto simp: mult.commute)
qed

text \<open>The theorem on the gym debits, 61 days after the last one: the gaps are all 30,
  the group meets the threshold 3 and is dropped.\<close>

theorem stale_group_discarded_witness:
  "avgIntervalOf (intervalsOf gymTxns) = Num 30
   \<and> 2 * 30 < real_of_int (differenceInDays (midnight 121) (tx_tradeDate (last gymTxns)))
   \<and> isConsistent (varianceOf (avgIntervalOf (intervalsOf gymTxns)) (intervalsOf gymTxns))
   \<and> analyseGroup (midnight 121) 3 gymTxns = None"
proof -
  have h2: "2 * 30 < real_of_int (differenceInDays (midnight 121) (tx_tradeDate (last gymTxns)))"
    by (simp add: gym_days_since)
  from gym_mean h2 gym_consistent stale_group_discarded[OF gym_mean h2, of 3]
  show ?thesis by blast
qed

text \<open>
  C6. The id of a transaction matched by an enabled exclusion rule appears in the
  transaction ids of no automatic entry (an entry without rule id) of the merged output,
  and no entry of the merged output has \<open>isExclude\<close> set.
\<close>

theorem excluded_ids_never_automatic:
  assumes "rule \<in> set rules" and "rule_enabled rule" and "truthyBool (rule_isExclude rule)"
    and "t \<in> set transactions" and "matchesRule rule t"
    and "e \<in> set (detectRecurringTransactions now transactions m rules)"
  shows "(rt_ruleId e = None \<longrightarrow> tx_id t \<notin> set (rt_transactionIds e))
       \<and> \<not> truthyBool (rt_isExclude e)"
proof (intro conjI impI)
  assume "rt_ruleId e = None"
  with assms(6) have auto_e: "e \<in> set (automaticResults now transactions m rules)"
    by (simp add: automatic_iff_no_ruleId)
  show "tx_id t \<notin> set (rt_transactionIds e)"
  proof
    assume "tx_id t \<in> set (rt_transactionIds e)"
    with automatic_ids_remaining[OF auto_e] obtain t' where
      t': "t' \<in> set (remainingTransactions now transactions rules)" "tx_id t' = tx_id t"
      by auto
    from remaining_ids[OF t'(1)] matched_id_consumed[OF assms(1,2,4,5), of now] t'(2)
    show False by simp
  qed
next
  show "\<not> truthyBool (rt_isExclude e)"
  proof (cases "e \<in> set (automaticResults now transactions m rules)")
    case True
    then obtain g :: "string \<times> Transaction list" where "analyseGroup now m (snd g) = Some e"
      by (auto simp: in_automatic_iff)
    from analyseGroup_SomeD[OF this] show ?thesis by auto
  next
    case False
    with assms(6) show ?thesis by (simp add: in_detect_iff)
  qed
qed

text \<open>The theorem on the gym and rent debits with the gym exclusion: the only entry of
  the output is the automatic rent entry, and the id of the first gym debit is not in it.\<close>

theorem excluded_ids_never_automatic_witness:
  "gymExclusion \<in> set [gymExclusion] \<and> rule_enabled gymExclusion
   \<and> truthyBool (rule_isExclude gymExclusion)
   \<and> mkTransaction ''g1'' 0 ''Gym Membership 001'' 49 DEBIT \<in> set (gymTxns @ rentTxns)
   \<and> matchesRule gymExclusion (mkTransaction ''g1'' 0 ''Gym Membership 001'' 49 DEBIT)
   \<and> rentEntry \<in> set (detectRecurringTransactions (midnight 70) (gymTxns @ rentTxns) 2 [gymExclusion])
   \<and> rt_ruleId rentEntry = None
   \<and> tx_id (mkTransaction ''g1'' 0 ''Gym Membership 001'' 49 DEBIT)
        \<notin> set (rt_transactionIds rentEntry)
   \<and> \<not> truthyBool (rt_isExclude rentEntry)"
proof -
  let ?t = "mkTransaction ''g1'' 0 ''Gym Membership 001'' 49 DEBIT"
  have h1: "gymExclusion \<in> set [gymExclusion]" and h2: "rule_enabled gymExclusion"
    and h3: "truthyBool (rule_isExclude gymExclusion)"
    and h4: "?t \<in> set (gymTxns @ rentTxns)" and h5: "matchesRule gymExclusion ?t"
    using gym_exclusion_facts by blast+
  have h6: "rentEntry \<in> set (detectRecurringTransactions (midnight 70) (gymTxns @ rentTxns) 2 [gymExclusion])"
    unfolding detect_excluded_gym by simp
  have n: "rt_ruleId rentEntry = None" by (simp add: rentEntry_def)
  from h1 h2 h3 h4 h5 h6 n excluded_ids_never_automatic[OF h1 h2 h3 h4 h5 h6]
  show ?thesis by blast
qed

text \<open>
  C7. \<open>projectLiquidity\<close> with balance 1000, no incomes, one automatic expense of 100 every
  30 days last charged 2024-01-01, horizon 90 and start date 2024-01-15 returns 91 points,
  one per consecutive day from 2024-01-15 (day 0) to 2024-04-14 (day 90); the expense falls
  on days 16, 46 and 76 (2024-01-31, 2024-03-01, 2024-03-31), where the balance drops by
  exactly 100 (1000, 900, 800, 700), and the balance is unchanged on every other day.
\<close>

theorem forecast_example:
  "projectLiquidity 10 1000 [] [monthlyBill] 90 exampleStart = Some exampleForecast
   \<and> length exampleForecast = 91
   \<and> map fc_date exampleForecast = map (\<lambda>k. civil_of_days (days_of_civil 2024 1 15 + k)) [0..90]
   \<and> map (\<lambda>k. civil_of_days (days_of_civil 2024 1 15 + k)) [0, 16, 46, 76, 90]
       = [(2024, 1, 15), (2024, 1, 31), (2024, 3, 1), (2024, 3, 31), (2024, 4, 14)]
   \<and> map fc_projectedBalance exampleForecast
       = map (\<lambda>k. if k < 16 then 1000 else if k < 46 then 900 else if k < 76 then 800 else 700)
           [0..90]
   \<and> map fc_event exampleForecast
       = map (\<lambda>k. if k = 16 \<or> k = 46 \<or> k = 76 then Some billEvent else None) [0..90]"
proof -
  have "projectLiquidity 10 1000 [] [monthlyBill] 90 exampleStart = Some exampleForecast"
    by code_simp
  moreover have "length exampleForecast = 91"
    by (simp add: exampleForecast_def)
  moreover have "map fc_date exampleForecast
      = map (\<lambda>k. civil_of_days (days_of_civil 2024 1 15 + k)) [0..90]"
    by (simp add: exampleForecast_def comp_def)
  moreover have "map fc_projectedBalance exampleForecast
      = map (\<lambda>k. if k < 16 then 1000 else if k < 46 then 900 else if k < 76 then 800 else 700)
          [0..90]"
    by (simp add: exampleForecast_def comp_def if_distrib cong: if_cong)
  moreover have "map fc_event exampleForecast
      = map (\<lambda>k. if k = 16 \<or> k = 46 \<or> k = 76 then Some billEvent else None) [0..90]"
    by (simp add: exampleForecast_def comp_def if_distrib cong: if_cong)
  ultimately show ?thesis using example_dates by blast
qed

text \<open>
  C8. The claim is that \<open>calculateSafeToSpend\<close> always returns
  \<open>safeToSpend = max 0 (currentBalance - reservedForBills - buffer)\<close>, which is 0 when the
  reserved bills and the buffer exceed the balance. With balance 100 and buffer 500 the
  claim promises the result 0; on three debits of one merchant on the same day and a rule
  for that merchant the function returns nothing, with any amount of fuel: the rule's
  entry has \<open>intervalDays = 0\<close> and the loop over the expenses never ends. Where every
  detected entry has an interval of at least one day the function returns, and what it
  returns is the clamped value (\<open>safeToSpend_returns_clamped\<close>).
\<close>

theorem safeToSpend_returns_nothing_on_same_day_matches:
  "calculateSafeToSpend fuel (midnight 10) 100 sameDayTxns [kioskRule] 500 = None"
proof -
  have "advanceToNow fuel (midnight 10) (rt_intervalDays kioskEntry) (rt_lastCharged kioskEntry) = None"
    using advance_zero_interval[OF kiosk_before_now] by (simp add: kioskEntry_def)
  then have "reserveForBills fuel (midnight 10) p [kioskEntry] 0 = None" for p
    by simp
  then show ?thesis
    by (simp add: calculateSafeToSpend_def detect_kiosk_debits split: option.splits)
qed

text \<open>
  C9. An enabled rule with \<open>isExclude = true\<close> and a non-empty pattern that matches no
  transaction, in an empty transaction list or one whose first transaction has the rule's
  direction, makes the matcher emit the projected entry: zero occurrences, no transaction
  ids, no \<open>isExclude\<close> flag; that entry is in the merged output.
\<close>

theorem unmatched_exclusion_is_projected:
  assumes "rule \<in> set rules" and "rule_enabled rule" and "rule_isExclude rule = Some True"
    and "rule_descriptionPattern rule \<noteq> []"
    and "filter (matchesRule rule) transactions = []"
    and "transactions = [] \<or> tx_type (hd transactions) = rule_type rule"
  shows "projectedEntry now rule \<in> set (detectManualRecurringTransactions now transactions rules)
       \<and> projectedEntry now rule \<in> set (detectRecurringTransactions now transactions m rules)
       \<and> rt_occurrences (projectedEntry now rule) = 0
       \<and> rt_transactionIds (projectedEntry now rule) = []
       \<and> rt_isExclude (projectedEntry now rule) = None
       \<and> rt_ruleId (projectedEntry now rule) = Some (rule_id rule)"
proof -
  have ty: "(case transactions of [] \<Rightarrow> True | t # ts \<Rightarrow> tx_type t = rule_type rule)"
    using assms(6) by (cases transactions) auto
  have "projectedEntry now rule \<in> set (ruleResult now transactions rule)"
    using assms(4,5) ty by (simp add: ruleResult_def)
  with assms(1,2) have 1: "projectedEntry now rule
      \<in> set (detectManualRecurringTransactions now transactions rules)"
    by (auto simp: in_detectManual_iff)
  have 2: "rt_isExclude (projectedEntry now rule) = None" by (simp add: projectedEntry_def)
  from 1 2 have 3: "projectedEntry now rule
      \<in> set (detectRecurringTransactions now transactions m rules)"
    by (simp add: in_detect_iff)
  from 1 2 3 show ?thesis by (simp add: projectedEntry_def)
qed

text \<open>The theorem on the gym debits with an exclusion rule for another merchant.\<close>

theorem unmatched_exclusion_is_projected_witness:
  "netflixExclusion \<in> set [netflixExclusion] \<and> rule_enabled netflixExclusion
   \<and> rule_isExclude netflixExclusion = Some True
   \<and> rule_descriptionPattern netflixExclusion \<noteq> []
   \<and> filter (matchesRule netflixExclusion) gymTxns = []
   \<and> (gymTxns = [] \<or> tx_type (hd gymTxns) = rule_type netflixExclusion)
   \<and> projectedEntry (midnight 70) netflixExclusion
        \<in> set (detectManualRecurringTransactions (midnight 70) gymTxns [netflixExclusion])
   \<and> projectedEntry (midnight 70) netflixExclusion
        \<in> set (detectRecurringTransactions (midnight 70) gymTxns 3 [netflixExclusion])
   \<and> rt_occurrences (projectedEntry (midnight 70) netflixExclusion) = 0
   \<and> rt_transactionIds (projectedEntry (midnight 70) netflixExclusion) = []
   \<and> rt_isExclude (projectedEntry (midnight 70) netflixExclusion) = None
   \<and> rt_ruleId (projectedEntry (midnight 70) netflixExclusion) = Some (rule_id netflixExclusion)"
proof -
  have h1: "netflixExclusion \<in> set [netflixExclusion]" and h2: "rule_enabled netflixExclusion"
    and h3: "rule_isExclude netflixExclusion = Some True"
    and h4: "rule_descriptionPattern netflixExclusion \<noteq> []"
    and h5: "filter (matchesRule netflixExclusion) gymTxns = []"
    and h6: "gymTxns = [] \<or> tx_type (hd gymTxns) = rule_type netflixExclusion"
    using netflix_exclusion_facts by blast+
  from h1 h2 h3 h4 h5 h6
    unmatched_exclusion_is_projected[OF h1 h2 h3 h4 h5 h6, of "midnight 70" 3]
  show ?thesis by blast
qed

text \<open>
  C10. Every automatically detected entry (one without a rule id) of the output of
  \<open>detectRecurringTransactions\<close> has \<open>intervalDays\<close> at least 1: every gap of its group is
  within a fifth of the positive mean, so no gap is zero, every gap is at least 1, the
  mean is at least 1 and so is its rounding.
\<close>

theorem automatic_interval_at_least_one:
  assumes "e \<in> set (detectRecurringTransactions now transactions m rules)"
    and "rt_ruleId e = None"
  shows "1 \<le> rt_intervalDays e"
proof -
  from assms have "e \<in> set (automaticResults now transactions m rules)"
    by (simp add: automatic_iff_no_ruleId)
  then obtain g :: "string \<times> Transaction list" where "analyseGroup now m (snd g) = Some e"
    by (auto simp: in_automatic_iff)
  then show ?thesis by (rule analyseGroup_interval_ge_1)
qed

text \<open>The theorem on the entry detected from the gym debits.\<close>

theorem automatic_interval_at_least_one_witness:
  "gymEntry \<in> set (detectRecurringTransactions (midnight 70) gymTxns 3 [])
   \<and> rt_ruleId gymEntry = None \<and> 1 \<le> rt_intervalDays gymEntry"
proof -
  have h1: "gymEntry \<in> set (detectRecurringTransactions (midnight 70) gymTxns 3 [])"
    unfolding detect_gym by simp
  have h2: "rt_ruleId gymEntry = None" by (simp add: gymEntry_def)
  from h1 h2 automatic_interval_at_least_one[OF h1 h2] show ?thesis by blast
qed

end
